theory Spec2Isabelle
  imports Complex_Main "HOL-Library.AList"
begin

section \<open>JSON values and JavaScript property access\<close>

text \<open>
  The request body that \<open>express.json()\<close> hands to the middleware is a parsed JSON
  value. Objects keep their properties in insertion order, so an object is an association
  list. In its default (strict) mode \<open>express.json()\<close> only lets objects and arrays
  through, so \<open>null\<close> and the primitives never stand at the top of a body; they occur as
  property values. A number is a rational: the only thing the handlers ask of a number is
  whether it is zero.
\<close>

datatype json =
    JNull
  | JBool bool
  | JNum rat
  | JStr string
  | JArr "json list"
  | JObj "(string \<times> json) list"

text \<open>
  \<open>body.name\<close>: the property of an object, \<open>undefined\<close> (here \<open>None\<close>) when the
  object has no such property. The two names the handlers read, \<open>creationDate\<close> and
  \<open>objectId\<close>, are \<open>undefined\<close> on an array as well.
\<close>

fun jget :: "json \<Rightarrow> string \<Rightarrow> json option" where
  "jget (JObj kvs) k = map_of kvs k"
| "jget _ k = None"

text \<open>
  \<open>body.name = v\<close>: an existing property keeps its place, a new one goes last. On an
  array the assignment would create a non-index property that \<open>JSON.stringify\<close> and the
  validator never see; the handlers assign only after reading a truthy value of the same
  property, which an array does not have.
\<close>

fun jset :: "json \<Rightarrow> string \<Rightarrow> json \<Rightarrow> json" where
  "jset (JObj kvs) k v = JObj (AList.update k v kvs)"
| "jset d k v = d"

text \<open>JavaScript truthiness, as \<open>if (x)\<close> and \<open>!x\<close> decide it.\<close>

fun truthy :: "json \<Rightarrow> bool" where
  "truthy JNull = False"
| "truthy (JBool b) = b"
| "truthy (JNum n) = (n \<noteq> 0)"
| "truthy (JStr s) = (s \<noteq> [])"
| "truthy (JArr xs) = True"
| "truthy (JObj kvs) = True"

section \<open>The libraries the server calls\<close>

text \<open>
  \<open>JSON.stringify\<close>, \<open>JSON.parse\<close> (\<open>None\<close> when it throws a \<open>SyntaxError\<close>), the
  \<open>etag\<close> package, \<open>moment(v, 'DD-MM-YYYY').format('YYYY-MM-DD')\<close> and the format
  checkers that \<open>addFormats\<close> installs are code outside the server. They are parameters
  of the model; a theorem that needs one of their laws says so in a hypothesis.
\<close>

record libs =
  JSON_stringify :: "json \<Rightarrow> string"
  JSON_parse :: "string \<Rightarrow> json option"
  etag :: "string \<Rightarrow> string"
  moment_format :: "json \<Rightarrow> string"
  check_format :: "string \<Rightarrow> string \<Rightarrow> bool"

section \<open>Responses and exceptions\<close>

text \<open>
  A response is what a handler does to \<open>res\<close>: the status it sets, the headers it sets
  with \<open>res.set\<close>, and the value it passes to \<open>res.json\<close> (\<open>None\<close> after
  \<open>res.end()\<close>), together with the freshness check that \<open>res.json\<close> makes before it
  writes a response out. The content headers that Express adds on its own are not
  modelled.
\<close>

record response =
  status :: nat
  headers :: "(string \<times> string) list"
  body :: "json option"

datatype exn = RedisError | TypeError | SyntaxError

text \<open>
  The body of a \<open>try\<close> block either sends a response or throws; a throw remembers the
  headers already set on \<open>res\<close>, because the \<open>catch\<close> block answers on the same
  \<open>res\<close>.
\<close>

datatype outcome = Sent response | Threw exn "(string \<times> string) list"

definition json_error :: "string \<Rightarrow> json" where
  "json_error msg = JObj [(''error'', JStr msg)]"

definition json_message :: "string \<Rightarrow> json" where
  "json_message msg = JObj [(''message'', JStr msg)]"

section \<open>The Redis client\<close>

text \<open>
  The client is the only state of the server: \<open>isReady\<close>, the keys of the database, and
  the fate of the commands to come. \<open>faults\<close> lists, for each command still to be sent,
  what happens to it: nothing (\<open>No_fault\<close>), the engine fails it (\<open>Engine_fails\<close>), or
  another client of the same database writes a key first (\<open>Other_writes\<close>, with
  \<open>None\<close> for a deletion), which is what a request served concurrently does between
  two \<open>await\<close>s of a handler. Past the end of the list nothing happens to a command. A
  command that fails rejects its promise and leaves the database as it was.
\<close>

datatype fault = No_fault | Engine_fails | Other_writes string "string option"

record redis =
  isReady :: bool
  db :: "string \<rightharpoonup> string"
  faults :: "fault list"

definition next_fails :: "redis \<Rightarrow> bool" where
  "next_fails s = (case faults s of Engine_fails # fs \<Rightarrow> True | _ \<Rightarrow> False)"

text \<open>The database as the next command finds it.\<close>

definition found :: "redis \<Rightarrow> (string \<rightharpoonup> string)" where
  "found s = (case faults s of Other_writes k v # fs \<Rightarrow> (db s)(k := v) | _ \<Rightarrow> db s)"

text \<open>The client after one command went to the engine.\<close>

definition command_sent :: "redis \<Rightarrow> redis" where
  "command_sent s = s\<lparr>faults := tl (faults s)\<rparr>"

text \<open>
  A key that is not a string never reaches the engine: the client throws a
  \<open>TypeError\<close> while encoding the command.
\<close>

fun client_set :: "json \<Rightarrow> string \<Rightarrow> redis \<Rightarrow> (exn + unit) \<times> redis" where
  "client_set (JStr k) v s =
     (if next_fails s then (Inl RedisError, command_sent s)
      else (Inr (), command_sent (s\<lparr>db := (found s)(k \<mapsto> v)\<rparr>)))"
| "client_set _ v s = (Inl TypeError, s)"

fun client_get :: "json \<Rightarrow> redis \<Rightarrow> (exn + string option) \<times> redis" where
  "client_get (JStr k) s =
     (if next_fails s then (Inl RedisError, command_sent s)
      else (Inr (found s k), command_sent (s\<lparr>db := found s\<rparr>)))"
| "client_get _ s = (Inl TypeError, s)"

fun client_del :: "json \<Rightarrow> redis \<Rightarrow> (exn + nat) \<times> redis" where
  "client_del (JStr k) s =
     (if next_fails s then (Inl RedisError, command_sent s)
      else (Inr (if found s k = None then 0 else 1),
            command_sent (s\<lparr>db := (found s)(k := None)\<rparr>)))"
| "client_del _ s = (Inl TypeError, s)"

section \<open>Middleware\<close>

text \<open>The readiness check that runs before every route.\<close>

definition not_connected :: response where
  "not_connected =
     \<lparr>status = 500, headers = [], body = Some (json_error ''Redis client is not connected'')\<rparr>"

subsection \<open>Date normalization\<close>

text \<open>\<open>transformDate\<close>: rewrites \<open>req.body.creationDate\<close> when it is truthy.\<close>

definition transformDate :: "libs \<Rightarrow> json \<Rightarrow> json" where
  "transformDate L reqbody =
     (case jget reqbody ''creationDate'' of
        None \<Rightarrow> reqbody
      | Some v \<Rightarrow>
          if truthy v then jset reqbody ''creationDate'' (JStr (moment_format L v))
          else reqbody)"

subsection \<open>The schema and its validator\<close>

text \<open>
  Modelled from the spec: the schema module \<open>./schema\<close> is not among the sources. A
  schema is a parameter of the model: a list of fields, each with a name, a primitive
  type, whether it is required and an optional string format, which is what section 3
  and section 4.2 of the specification say a schema fixes.
\<close>

datatype jtype = TString | TNumber | TBoolean | TObject | TArray

fun has_type :: "jtype \<Rightarrow> json \<Rightarrow> bool" where
  "has_type t (JStr s) = (t = TString)"
| "has_type t (JNum n) = (t = TNumber)"
| "has_type t (JBool b) = (t = TBoolean)"
| "has_type t (JObj kvs) = (t = TObject)"
| "has_type t (JArr xs) = (t = TArray)"
| "has_type t JNull = False"

record field_schema =
  fname :: string
  ftype :: jtype
  frequired :: bool
  fformat :: "string option"

type_synonym schema = "field_schema list"

datatype constraint = Required | HasType jtype | HasFormat string

type_synonym verror = "string \<times> constraint"

text \<open>
  Modelled from the spec: the function that \<open>ajv.compile(schema)\<close> returns is not among
  the sources. Following section 4.2 of the specification, the validator checks
  required-field presence, primitive types and, through the pluggable checker, string
  formats; it returns an ordered list of errors that each name the field and the
  violated constraint, and a document is valid when the list is empty.
\<close>

definition check_field :: "libs \<Rightarrow> json \<Rightarrow> field_schema \<Rightarrow> verror list" where
  "check_field L doc f =
     (case jget doc (fname f) of
        None \<Rightarrow> (if frequired f then [(fname f, Required)] else [])
      | Some v \<Rightarrow>
          if \<not> has_type (ftype f) v then [(fname f, HasType (ftype f))]
          else (case (fformat f, v) of
                  (Some fmt, JStr s) \<Rightarrow>
                    if check_format L fmt s then [] else [(fname f, HasFormat fmt)]
                | _ \<Rightarrow> []))"

text \<open>
  Modelled from the spec: the validator of a whole document. A document that is not an
  object violates the type of the root.
\<close>

definition validate :: "libs \<Rightarrow> schema \<Rightarrow> json \<Rightarrow> verror list" where
  "validate L sch doc =
     (case doc of
        JObj kvs \<Rightarrow> concat (map (check_field L doc) sch)
      | _ \<Rightarrow> [([], HasType TObject)])"

fun constraint_name :: "constraint \<Rightarrow> string" where
  "constraint_name Required = ''required''"
| "constraint_name (HasType t) = ''type''"
| "constraint_name (HasFormat fmt) = ''format''"

definition error_json :: "verror \<Rightarrow> json" where
  "error_json e =
     JObj [(''instancePath'', JStr (fst e)), (''keyword'', JStr (constraint_name (snd e)))]"

text \<open>
  The middleware \<open>validateSchema(schema)\<close>: answers 400 with the error list when the body is not
  valid (\<open>Some\<close>), and calls \<open>next()\<close> otherwise (\<open>None\<close>).
\<close>

definition validation_failed :: "verror list \<Rightarrow> response" where
  "validation_failed errors =
     \<lparr>status = 400, headers = [],
      body = Some (JObj [(''message'', JStr ''Validation failed''),
                         (''errors'', JArr (map error_json errors))])\<rparr>"

definition validateSchema :: "libs \<Rightarrow> schema \<Rightarrow> json \<Rightarrow> response option" where
  "validateSchema L sch reqbody =
     (let errors = validate L sch reqbody
      in if errors \<noteq> [] then Some (validation_failed errors) else None)"

section \<open>Route handlers\<close>

text \<open>The \<open>catch\<close> block of a handler: status 500 and a fixed message.\<close>

definition catch_500 :: "string \<Rightarrow> outcome \<Rightarrow> response" where
  "catch_500 msg out =
     (case out of
        Sent r \<Rightarrow> r
      | Threw e hs \<Rightarrow> \<lparr>status = 500, headers = hs, body = Some (json_error msg)\<rparr>)"

definition missing_objectId :: response where
  "missing_objectId =
     \<lparr>status = 400, headers = [],
      body = Some (json_message ''Missing objectId in the request body.'')\<rparr>"

text \<open>
  The \<open>try\<close> block of \<open>POST /v1/plan\<close>. \<open>etag\<close> throws a \<open>TypeError\<close> on
  \<open>null\<close>; \<open>res.set\<close> runs before \<open>JSON.parse\<close>.
\<close>

definition create_try :: "libs \<Rightarrow> json \<Rightarrow> redis \<Rightarrow> outcome \<times> redis" where
  "create_try L reqbody s =
     (let requestBodyString = JSON_stringify L reqbody in
      case jget reqbody ''objectId'' of
        None \<Rightarrow> (Sent missing_objectId, s)
      | Some objectId \<Rightarrow>
          if \<not> truthy objectId then (Sent missing_objectId, s)
          else
            (case client_set objectId requestBodyString s of
               (Inl e, s1) \<Rightarrow> (Threw e [], s1)
             | (Inr u, s1) \<Rightarrow>
                 (case client_get objectId s1 of
                    (Inl e, s2) \<Rightarrow> (Threw e [], s2)
                  | (Inr None, s2) \<Rightarrow> (Threw TypeError [], s2)
                  | (Inr (Some dataString), s2) \<Rightarrow>
                      (let generatedEtag = etag L dataString;
                           hs = [(''ETag'', generatedEtag)]
                       in case JSON_parse L dataString of
                            None \<Rightarrow> (Threw SyntaxError hs, s2)
                          | Some doc \<Rightarrow>
                              (Sent \<lparr>status = 201, headers = hs, body = Some doc\<rparr>, s2)))))"

definition create_plan :: "libs \<Rightarrow> json \<Rightarrow> redis \<Rightarrow> response \<times> redis" where
  "create_plan L reqbody s =
     (case create_try L reqbody s of (out, s') \<Rightarrow> (catch_500 ''Error creating plan'' out, s'))"

text \<open>
  \<open>res.json\<close> ends in Express's \<open>res.send\<close>. For a GET whose status is 2xx, \<open>res.send\<close>
  asks the \<open>fresh\<close> package whether the validators of the request match those of the
  response, and if so answers 304 instead: it keeps the headers set so far and sends no
  body. \<open>fresh\<close> splits \<open>If-None-Match\<close> at commas, dropping the spaces around the
  tokens, and compares each token with the \<open>ETag\<close> of the response up to a \<open>W/\<close>
  prefix on either side; the token \<open>*\<close> matches every response. A request is modelled
  with its \<open>If-None-Match\<close> header only: it has no \<open>Cache-Control\<close> and no
  \<open>If-Modified-Since\<close> header, which could only make \<open>fresh\<close> answer no. Of the
  responses of this server, only the 200 of the GET route meets the conditions of the
  check.
\<close>

definition substring :: "string \<Rightarrow> nat \<Rightarrow> nat \<Rightarrow> string" where
  "substring str a b = take (b - a) (drop a str)"

text \<open>
  The loop of \<open>parseTokenList\<close> over the characters still to be read, with the index
  \<open>i\<close> of the next character and the bounds \<open>start\<close> and \<open>stop\<close> of the current token.
\<close>

fun gather :: "string \<Rightarrow> string \<Rightarrow> nat \<Rightarrow> nat \<Rightarrow> nat \<Rightarrow> string list" where
  "gather str [] i start stop = [substring str start stop]"
| "gather str (c # cs) i start stop =
     (if c = CHR '' '' then
        (if start = stop then gather str cs (i + 1) (i + 1) (i + 1)
         else gather str cs (i + 1) start stop)
      else if c = CHR '','' then
        substring str start stop # gather str cs (i + 1) (i + 1) (i + 1)
      else gather str cs (i + 1) start (i + 1))"

definition parseTokenList :: "string \<Rightarrow> string list" where
  "parseTokenList str = gather str str 0 0 0"

definition fresh :: "string option \<Rightarrow> string \<Rightarrow> bool" where
  "fresh noneMatch etagHeader =
     (case noneMatch of
        None \<Rightarrow> False
      | Some t \<Rightarrow>
          if t = [] then False
          else if t = ''*'' then True
          else if etagHeader = [] then False
          else list_ex
                 (\<lambda>m. m = etagHeader \<or> m = ''W/'' @ etagHeader \<or> ''W/'' @ m = etagHeader)
                 (parseTokenList t))"

text \<open>
  The \<open>try\<close> block of \<open>GET /v1/plan/:id\<close>. \<open>!dataString\<close> holds for \<open>null\<close> and
  for the empty string. \<open>JSON.parse\<close> runs before \<open>res.json\<close> is entered, and with it
  the freshness check.
\<close>

definition plan_not_found :: response where
  "plan_not_found = \<lparr>status = 404, headers = [], body = Some (json_error ''Plan not found'')\<rparr>"

definition read_try :: "libs \<Rightarrow> string \<Rightarrow> string option \<Rightarrow> redis \<Rightarrow> outcome \<times> redis" where
  "read_try L key if_none_match s =
     (case client_get (JStr key) s of
        (Inl e, s1) \<Rightarrow> (Threw e [], s1)
      | (Inr None, s1) \<Rightarrow> (Sent plan_not_found, s1)
      | (Inr (Some dataString), s1) \<Rightarrow>
          if dataString = [] then (Sent plan_not_found, s1)
          else
            (let etagHeader = etag L dataString in
             if if_none_match = Some etagHeader
             then (Sent \<lparr>status = 304, headers = [], body = None\<rparr>, s1)
             else
               (let hs = [(''ETag'', etagHeader)]
                in case JSON_parse L dataString of
                     None \<Rightarrow> (Threw SyntaxError hs, s1)
                   | Some doc \<Rightarrow>
                       if fresh if_none_match etagHeader
                       then (Sent \<lparr>status = 304, headers = hs, body = None\<rparr>, s1)
                       else (Sent \<lparr>status = 200, headers = hs, body = Some doc\<rparr>, s1))))"

definition read_plan :: "libs \<Rightarrow> string \<Rightarrow> string option \<Rightarrow> redis \<Rightarrow> response \<times> redis" where
  "read_plan L key if_none_match s =
     (case read_try L key if_none_match s of
        (out, s') \<Rightarrow> (catch_500 ''Error retrieving plan'' out, s'))"

text \<open>The \<open>try\<close> block of \<open>DELETE /v1/plan/:id\<close>.\<close>

definition plan_deleted :: response where
  "plan_deleted =
     \<lparr>status = 200, headers = [], body = Some (json_message ''Plan deleted successfully'')\<rparr>"

definition delete_try :: "string \<Rightarrow> redis \<Rightarrow> outcome \<times> redis" where
  "delete_try key s =
     (case client_del (JStr key) s of
        (Inl e, s1) \<Rightarrow> (Threw e [], s1)
      | (Inr result, s1) \<Rightarrow>
          if result = 0 then (Sent plan_not_found, s1) else (Sent plan_deleted, s1))"

definition delete_plan :: "string \<Rightarrow> redis \<Rightarrow> response \<times> redis" where
  "delete_plan key s =
     (case delete_try key s of (out, s') \<Rightarrow> (catch_500 ''Error deleting plan'' out, s'))"

section \<open>The application\<close>

text \<open>
  The three routes. Every request first passes the readiness middleware; a POST then
  passes \<open>transformDate\<close> and \<open>validateSchema(planSchema)\<close>, in this order, before its
  handler. \<open>GET_plan\<close> carries the \<open>:id\<close> parameter and the \<open>If-None-Match\<close> header,
  when the request has one.
\<close>

datatype request =
    POST_plan json
  | GET_plan string "string option"
  | DELETE_plan string

definition post_route :: "libs \<Rightarrow> schema \<Rightarrow> json \<Rightarrow> redis \<Rightarrow> response \<times> redis" where
  "post_route L sch reqbody s =
     (let reqbody1 = transformDate L reqbody in
      case validateSchema L sch reqbody1 of
        Some r \<Rightarrow> (r, s)
      | None \<Rightarrow> create_plan L reqbody1 s)"

definition app :: "libs \<Rightarrow> schema \<Rightarrow> request \<Rightarrow> redis \<Rightarrow> response \<times> redis" where
  "app L sch rq s =
     (if \<not> isReady s then (not_connected, s)
      else (case rq of
              POST_plan reqbody \<Rightarrow> post_route L sch reqbody s
            | GET_plan key if_none_match \<Rightarrow> read_plan L key if_none_match s
            | DELETE_plan key \<Rightarrow> delete_plan key s))"

text \<open>Serving requests one after the other: the responses, and the client at the end.\<close>

fun serve :: "libs \<Rightarrow> schema \<Rightarrow> request list \<Rightarrow> redis \<Rightarrow> response list \<times> redis" where
  "serve L sch [] s = ([], s)"
| "serve L sch (rq # rqs) s =
     (case app L sch rq s of
        (r, s1) \<Rightarrow> (case serve L sch rqs s1 of (rs, s2) \<Rightarrow> (r # rs, s2)))"

section \<open>Notions the properties are stated with\<close>

text \<open>A request that only reads.\<close>

definition is_read :: "request \<Rightarrow> bool" where
  "is_read rq = (case rq of GET_plan key if_none_match \<Rightarrow> True | _ \<Rightarrow> False)"

text \<open>
  The engine failed a command between two states of the client: one of the faults that
  the commands in between used up was \<open>Engine_fails\<close>.
\<close>

definition engine_failed :: "redis \<Rightarrow> redis \<Rightarrow> bool" where
  "engine_failed s s' =
     (Engine_fails \<in> set (take (length (faults s) - length (faults s')) (faults s)))"

text \<open>The message with which the \<open>catch\<close> block of a route answers.\<close>

definition catch_message :: "request \<Rightarrow> string" where
  "catch_message rq =
     (case rq of
        POST_plan reqbody \<Rightarrow> ''Error creating plan''
      | GET_plan key if_none_match \<Rightarrow> ''Error retrieving plan''
      | DELETE_plan key \<Rightarrow> ''Error deleting plan'')"

text \<open>
  A property of stored values that holds of everything in the database and of
  everything that other clients are going to write.
\<close>

definition only_records :: "(string \<Rightarrow> bool) \<Rightarrow> redis \<Rightarrow> bool" where
  "only_records P s =
     ((\<forall>k v. db s k = Some v \<longrightarrow> P v)
      \<and> (\<forall>k v. Other_writes k (Some v) \<in> set (faults s) \<longrightarrow> P v))"

subsection \<open>Day-month-year and year-month-day texts\<close>

text \<open>
  A day-month-year text is a text in the format \<open>DD-MM-YYYY\<close> that the route passes to
  \<open>moment\<close>: two digits, a dash, two digits, a dash and four digits that name a day of
  the calendar. Its year-month-day text has the same three groups of digits in the order
  of \<open>YYYY-MM-DD\<close>.
\<close>

definition is_digit :: "char \<Rightarrow> bool" where
  "is_digit c = (48 \<le> (of_char c :: nat) \<and> (of_char c :: nat) \<le> 57)"

definition digit_val :: "char \<Rightarrow> nat" where
  "digit_val c = of_char c - 48"

definition digits_val :: "string \<Rightarrow> nat" where
  "digits_val cs = foldl (\<lambda>n c. 10 * n + digit_val c) 0 cs"

definition leap_year :: "nat \<Rightarrow> bool" where
  "leap_year y = (y mod 4 = 0 \<and> (y mod 100 \<noteq> 0 \<or> y mod 400 = 0))"

definition days_in_month :: "nat \<Rightarrow> nat \<Rightarrow> nat" where
  "days_in_month y m =
     (if m = 2 then (if leap_year y then 29 else 28)
      else if m = 4 \<or> m = 6 \<or> m = 9 \<or> m = 11 then 30
      else 31)"

definition dmy_text :: "string \<Rightarrow> bool" where
  "dmy_text s =
     (case s of
        [d1, d2, s1, m1, m2, s2, y1, y2, y3, y4] \<Rightarrow>
          s1 = CHR ''-'' \<and> s2 = CHR ''-''
          \<and> list_all is_digit [d1, d2, m1, m2, y1, y2, y3, y4]
          \<and> 1 \<le> digits_val [m1, m2] \<and> digits_val [m1, m2] \<le> 12
          \<and> 1 \<le> digits_val [d1, d2]
          \<and> digits_val [d1, d2]
               \<le> days_in_month (digits_val [y1, y2, y3, y4]) (digits_val [m1, m2])
      | _ \<Rightarrow> False)"

definition ymd_of_dmy :: "string \<Rightarrow> string" where
  "ymd_of_dmy s = take 4 (drop 6 s) @ ''-'' @ take 2 (drop 3 s) @ ''-'' @ take 2 s"

text \<open>
  What the route relies on \<open>moment\<close> for: parsed with \<open>DD-MM-YYYY\<close> and formatted with
  \<open>YYYY-MM-DD\<close>, a day-month-year text becomes its year-month-day text. What
  \<open>moment\<close> returns for any other value is left open.
\<close>

definition moment_reformats :: "libs \<Rightarrow> bool" where
  "moment_reformats L = (\<forall>s. dmy_text s \<longrightarrow> moment_format L (JStr s) = ymd_of_dmy s)"

section \<open>Sample data\<close>

text \<open>
  The scenario of the specification: a plan posted with a day-month-year date, the
  document and the bytes stored for it, a second plan under the same identifier, and a
  plan whose date is a number. The sample libraries are one instance of the parameters:
  the codec is a table of documents and their bytes, the fingerprint prefixes the bytes,
  and the date function reformats a day-month-year text and answers \<open>Invalid date\<close>
  otherwise.
\<close>

definition sample_doc :: json where
  "sample_doc =
     JObj [(''objectId'', JStr ''abc123''), (''creationDate'', JStr ''25-12-2023''),
           (''plan'', JStr ''gold'')]"

definition sample_stored :: json where
  "sample_stored =
     JObj [(''objectId'', JStr ''abc123''), (''creationDate'', JStr ''2023-12-25''),
           (''plan'', JStr ''gold'')]"

definition sample_bytes :: string where
  "sample_bytes = ''{objectId:abc123;creationDate:2023-12-25;plan:gold}''"

definition second_doc :: json where
  "second_doc =
     JObj [(''objectId'', JStr ''abc123''), (''creationDate'', JStr ''01-02-2024''),
           (''plan'', JStr ''silver'')]"

definition second_stored :: json where
  "second_stored =
     JObj [(''objectId'', JStr ''abc123''), (''creationDate'', JStr ''2024-02-01''),
           (''plan'', JStr ''silver'')]"

definition second_bytes :: string where
  "second_bytes = ''{objectId:abc123;creationDate:2024-02-01;plan:silver}''"


definition numeric_date_stored :: json where
  "numeric_date_stored =
     JObj [(''objectId'', JStr ''abc123''), (''creationDate'', JStr ''Invalid date''),
           (''plan'', JStr ''gold'')]"

definition numeric_date_bytes :: string where
  "numeric_date_bytes = ''{objectId:abc123;creationDate:Invalid date;plan:gold}''"

definition sample_codec :: "(json \<times> string) list" where
  "sample_codec =
     [(sample_stored, sample_bytes),
      (second_stored, second_bytes),
      (numeric_date_stored, numeric_date_bytes)]"

definition dmy_to_ymd :: "json \<Rightarrow> string" where
  "dmy_to_ymd v =
     (case v of
        JStr s \<Rightarrow> if dmy_text s then ymd_of_dmy s else ''Invalid date''
      | _ \<Rightarrow> ''Invalid date'')"

definition sample_libs :: libs where
  "sample_libs =
     \<lparr>JSON_stringify = (\<lambda>d. case map_of sample_codec d of Some b \<Rightarrow> b | None \<Rightarrow> ''null''),
      JSON_parse = map_of (map (\<lambda>(d, b). (b, d)) sample_codec),
      etag = (\<lambda>b. ''tag-'' @ b),
      moment_format = dmy_to_ymd,
      check_format = (\<lambda>fmt v. True)\<rparr>"

definition sample_schema :: schema where
  "sample_schema =
     [\<lparr>fname = ''objectId'', ftype = TString, frequired = True, fformat = None\<rparr>,
      \<lparr>fname = ''creationDate'', ftype = TString, frequired = True, fformat = None\<rparr>,
      \<lparr>fname = ''plan'', ftype = TString, frequired = True, fformat = None\<rparr>]"

definition empty_store :: redis where
  "empty_store = \<lparr>isReady = True, db = Map.empty, faults = []\<rparr>"

definition failing_store :: redis where
  "failing_store = \<lparr>isReady = True, db = [''abc123'' \<mapsto> sample_bytes], faults = [Engine_fails]\<rparr>"

definition unready_store :: redis where
  "unready_store = \<lparr>isReady = False, db = [''abc123'' \<mapsto> sample_bytes], faults = []\<rparr>"

definition other_writer_store :: redis where
  "other_writer_store =
     \<lparr>isReady = True, db = Map.empty,
      faults = [No_fault, Other_writes ''abc123'' (Some second_bytes)]\<rparr>"

definition sample_store :: redis where
  "sample_store = \<lparr>isReady = True, db = [''abc123'' \<mapsto> sample_bytes], faults = []\<rparr>"

section \<open>Auxiliary facts\<close>

subsection \<open>Properties of objects\<close>

lemma jget_jset_same: "jget D k = Some v0 \<Longrightarrow> jget (jset D k v) k = Some v"
  by (cases D) (simp_all add: update_conv')

lemma jget_jset_other: "f \<noteq> k \<Longrightarrow> jget (jset D k v) f = jget D f"
  by (cases D) (simp_all add: update_conv')

lemma jget_transformDate_other:
  "f \<noteq> ''creationDate'' \<Longrightarrow> jget (transformDate L D) f = jget D f"
  by (simp add: transformDate_def jget_jset_other split: option.splits)

lemma dmy_text_nonempty: "dmy_text t \<Longrightarrow> t \<noteq> []"
  by (auto simp: dmy_text_def)

lemma transformDate_absent: "jget D ''creationDate'' = None \<Longrightarrow> transformDate L D = D"
  by (simp add: transformDate_def)


lemma transformDate_truthy:
  "jget D ''creationDate'' = Some v \<Longrightarrow> truthy v \<Longrightarrow>
   transformDate L D = jset D ''creationDate'' (JStr (moment_format L v))"
  by (simp add: transformDate_def)

subsection \<open>The validator\<close>



subsection \<open>A client whose engine does not fail\<close>

lemma next_fails_healthy: "faults s = [] \<Longrightarrow> \<not> next_fails s"
  by (simp add: next_fails_def)

lemma found_healthy: "faults s = [] \<Longrightarrow> found s = db s"
  by (simp add: found_def)

lemma command_sent_healthy: "faults s = [] \<Longrightarrow> command_sent s = s"
  by (simp add: command_sent_def)

lemma read_plan_healthy:
  assumes "faults s = []"
  shows "read_plan L k inm s =
     (case db s k of
        None \<Rightarrow> (plan_not_found, s)
      | Some v \<Rightarrow>
          if v = [] then (plan_not_found, s)
          else if inm = Some (etag L v) then (\<lparr>status = 304, headers = [], body = None\<rparr>, s)
          else (case JSON_parse L v of
                  None \<Rightarrow> (\<lparr>status = 500, headers = [(''ETag'', etag L v)],
                             body = Some (json_error ''Error retrieving plan'')\<rparr>, s)
                | Some doc \<Rightarrow>
                    if fresh inm (etag L v)
                    then (\<lparr>status = 304, headers = [(''ETag'', etag L v)], body = None\<rparr>, s)
                    else (\<lparr>status = 200, headers = [(''ETag'', etag L v)], body = Some doc\<rparr>,
                          s)))"
  using assms
  by (simp add: read_plan_def read_try_def next_fails_healthy found_healthy command_sent_healthy
        catch_500_def Let_def split: option.splits)

lemma fresh_no_token [simp]: "\<not> fresh None e"
  by (simp add: fresh_def)

lemma delete_plan_healthy:
  assumes "faults s = []"
  shows "delete_plan k s =
     (if db s k = None then (plan_not_found, s\<lparr>db := (db s)(k := None)\<rparr>)
      else (plan_deleted, s\<lparr>db := (db s)(k := None)\<rparr>))"
  using assms
  by (simp add: delete_plan_def delete_try_def next_fails_healthy found_healthy
        command_sent_healthy catch_500_def)

lemma create_plan_healthy:
  assumes "faults s = []" and "jget d ''objectId'' = Some (JStr k)" and "k \<noteq> []"
  shows "create_plan L d s =
     (case JSON_parse L (JSON_stringify L d) of
        None \<Rightarrow> (\<lparr>status = 500, headers = [(''ETag'', etag L (JSON_stringify L d))],
                   body = Some (json_error ''Error creating plan'')\<rparr>,
                  s\<lparr>db := (db s)(k \<mapsto> JSON_stringify L d)\<rparr>)
      | Some doc \<Rightarrow> (\<lparr>status = 201, headers = [(''ETag'', etag L (JSON_stringify L d))],
                       body = Some doc\<rparr>,
                      s\<lparr>db := (db s)(k \<mapsto> JSON_stringify L d)\<rparr>))"
  using assms
  by (simp add: create_plan_def create_try_def next_fails_def found_def command_sent_def
                catch_500_def Let_def split: option.splits)

lemma post_route_valid:
  "validate L sch (transformDate L D) = [] \<Longrightarrow>
   post_route L sch D s = create_plan L (transformDate L D) s"
  by (simp add: post_route_def validateSchema_def Let_def)

lemma post_route_invalid:
  "validate L sch (transformDate L D) \<noteq> [] \<Longrightarrow>
   post_route L sch D s = (validation_failed (validate L sch (transformDate L D)), s)"
  by (simp add: post_route_def validateSchema_def Let_def)

lemma create_plan_no_objectId:
  "jget d ''objectId'' = None \<Longrightarrow> create_plan L d s = (missing_objectId, s)"
  by (simp add: create_plan_def create_try_def catch_500_def Let_def)

lemma serve_reads:
  assumes "isReady s" and "faults s = []" and "\<forall>rq \<in> set rqs. is_read rq"
  shows "snd (serve L sch rqs s) = s"
  using assms(3)
proof (induction rqs)
  case Nil
  then show ?case by simp
next
  case (Cons rq rqs)
  then obtain key inm where rq: "rq = GET_plan key inm"
    by (cases rq) (simp_all add: is_read_def)
  have "snd (app L sch rq s) = s"
    using assms(1,2) rq
    by (simp add: app_def read_plan_healthy split: option.splits)
  with Cons show ?case
    by (auto split: prod.splits)
qed

subsection \<open>The freshness check\<close>

lemma gather_plain:
  assumes "CHR '','' \<notin> set cs" and "CHR '' '' \<notin> set cs"
  shows "gather str cs i start stop =
           [substring str start (if cs = [] then stop else i + length cs)]"
  using assms by (induction cs arbitrary: i stop) auto

lemma parseTokenList_plain:
  assumes "CHR '','' \<notin> set t" and "CHR '' '' \<notin> set t"
  shows "parseTokenList t = [t]"
  using gather_plain [OF assms, of t 0 0 0] by (auto simp: parseTokenList_def substring_def)

lemma fresh_star: "fresh (Some ''*'') e"
  by (simp add: fresh_def)

lemma fresh_weak:
  assumes "e \<noteq> []" and "CHR '','' \<notin> set e" and "CHR '' '' \<notin> set e"
  shows "fresh (Some (''W/'' @ e)) e"
proof -
  have "parseTokenList (''W/'' @ e) = [''W/'' @ e]"
    using assms(2,3) by (intro parseTokenList_plain) auto
  with assms(1) show ?thesis
    by (simp add: fresh_def)
qed

subsection \<open>A client whose engine fails\<close>

lemma threw_is_500:
  "catch_500 msg (Threw e hs) = \<lparr>status = 500, headers = hs, body = Some (json_error msg)\<rparr>"
  by (simp add: catch_500_def)

lemma next_fails_iff: "next_fails s \<longleftrightarrow> faults s \<noteq> [] \<and> hd (faults s) = Engine_fails"
  by (simp add: next_fails_def split: list.splits fault.splits)

lemma set_failed_or_not:
  "client_set key v s = (x, s1) \<Longrightarrow>
     (x = Inl TypeError \<and> s1 = s)
   \<or> (x = Inl RedisError \<and> faults s \<noteq> [] \<and> hd (faults s) = Engine_fails
        \<and> faults s1 = tl (faults s))
   \<or> (x = Inr () \<and> (faults s = [] \<or> hd (faults s) \<noteq> Engine_fails)
        \<and> faults s1 = tl (faults s))"
  by (cases key) (auto simp: next_fails_iff command_sent_def split: if_splits)

lemma get_failed_or_not:
  "client_get key s = (x, s1) \<Longrightarrow>
     (x = Inl TypeError \<and> s1 = s)
   \<or> (x = Inl RedisError \<and> faults s \<noteq> [] \<and> hd (faults s) = Engine_fails
        \<and> faults s1 = tl (faults s))
   \<or> ((\<exists>y. x = Inr y) \<and> (faults s = [] \<or> hd (faults s) \<noteq> Engine_fails)
        \<and> faults s1 = tl (faults s))"
  by (cases key) (auto simp: next_fails_iff command_sent_def split: if_splits)

lemma del_failed_or_not:
  "client_del key s = (x, s1) \<Longrightarrow>
     (x = Inl TypeError \<and> s1 = s)
   \<or> (x = Inl RedisError \<and> faults s \<noteq> [] \<and> hd (faults s) = Engine_fails
        \<and> faults s1 = tl (faults s))
   \<or> ((\<exists>y. x = Inr y) \<and> (faults s = [] \<or> hd (faults s) \<noteq> Engine_fails)
        \<and> faults s1 = tl (faults s))"
  by (cases key) (auto simp: next_fails_iff command_sent_def split: if_splits)

lemma one_command_not_failed:
  assumes "faults s = [] \<or> hd (faults s) \<noteq> Engine_fails" and "faults s1 = tl (faults s)"
  shows "\<not> engine_failed s s1"
  using assms by (cases "faults s") (auto simp: engine_failed_def)

lemma read_failed:
  assumes "read_plan L k inm s = (r, s')" and "engine_failed s s'"
  shows "status r = 500 \<and> body r = Some (json_error ''Error retrieving plan'')"
proof -
  obtain x s1 where get: "client_get (JStr k) s = (x, s1)"
    by (cases "client_get (JStr k) s")
  from assms(1) get have s': "s' = s1"
    by (auto simp: read_plan_def read_try_def Let_def split: sum.splits option.splits if_splits)
  show ?thesis
  proof (cases x)
    case (Inl e)
    with assms(1) get show ?thesis
      by (auto simp: read_plan_def read_try_def catch_500_def)
  next
    case (Inr y)
    with get_failed_or_not [OF get] have "\<not> engine_failed s s1"
      by (intro one_command_not_failed) auto
    with assms(2) s' show ?thesis
      by simp
  qed
qed

lemma delete_failed:
  assumes "delete_plan k s = (r, s')" and "engine_failed s s'"
  shows "status r = 500 \<and> body r = Some (json_error ''Error deleting plan'')"
proof -
  obtain x s1 where del: "client_del (JStr k) s = (x, s1)"
    by (cases "client_del (JStr k) s")
  from assms(1) del have s': "s' = s1"
    by (auto simp: delete_plan_def delete_try_def split: sum.splits if_splits)
  show ?thesis
  proof (cases x)
    case (Inl e)
    with assms(1) del show ?thesis
      by (auto simp: delete_plan_def delete_try_def catch_500_def)
  next
    case (Inr y)
    with del_failed_or_not [OF del] have "\<not> engine_failed s s1"
      by (intro one_command_not_failed) auto
    with assms(2) s' show ?thesis
      by simp
  qed
qed

lemma create_failed:
  assumes "create_plan L d s = (r, s')" and "engine_failed s s'"
  shows "status r = 500 \<and> body r = Some (json_error ''Error creating plan'')"
proof (cases "\<exists>oid. jget d ''objectId'' = Some oid \<and> truthy oid")
  case False
  then have "create_plan L d s = (missing_objectId, s)"
    by (auto simp: create_plan_def create_try_def catch_500_def Let_def split: option.splits)
  with assms show ?thesis
    by (simp add: engine_failed_def)
next
  case True
  then obtain oid where oid: "jget d ''objectId'' = Some oid" "truthy oid"
    by blast
  obtain x s1 where set: "client_set oid (JSON_stringify L d) s = (x, s1)"
    by (cases "client_set oid (JSON_stringify L d) s")
  obtain y s2 where get: "client_get oid s1 = (y, s2)"
    by (cases "client_get oid s1")
  show ?thesis
  proof (cases x)
    case (Inl e)
    with assms(1) oid set have "status r = 500 \<and> body r = Some (json_error ''Error creating plan'')"
      by (auto simp: create_plan_def create_try_def catch_500_def Let_def)
    then show ?thesis .
  next
    case (Inr u)
    show ?thesis
    proof (cases y)
      case (Inl e)
      with assms(1) oid set get Inr
      have "status r = 500 \<and> body r = Some (json_error ''Error creating plan'')"
        by (auto simp: create_plan_def create_try_def catch_500_def Let_def)
      then show ?thesis .
    next
      case got: (Inr ds)
      from assms(1) oid set get Inr got have s': "s' = s2"
        by (auto simp: create_plan_def create_try_def catch_500_def Let_def
              split: option.splits)
      from set_failed_or_not [OF set] Inr
      have a: "faults s = [] \<or> hd (faults s) \<noteq> Engine_fails" "faults s1 = tl (faults s)"
        by auto
      from get_failed_or_not [OF get] got
      have b: "faults s1 = [] \<or> hd (faults s1) \<noteq> Engine_fails" "faults s2 = tl (faults s1)"
        by auto
      from a b have "\<not> engine_failed s s2"
        by (cases "faults s"; cases "tl (faults s)") (auto simp: engine_failed_def)
      with assms(2) s' show ?thesis
        by simp
    qed
  qed
qed

subsection \<open>What the store holds\<close>

text \<open>
  The server writes nothing but serializations: a property that holds of every stored
  value, of every value that other clients write and of every result of
  \<open>JSON.stringify\<close> still holds of every stored value after any sequence of requests,
  whatever the engine fails. Non-empty, decodable bytes are such a property when
  \<open>JSON.parse\<close> decodes what \<open>JSON.stringify\<close> prints.
\<close>

lemma found_only_records:
  assumes "only_records P s"
  shows "\<forall>k v. found s k = Some v \<longrightarrow> P v"
proof (cases "faults s")
  case Nil
  with assms show ?thesis
    by (simp add: only_records_def found_def)
next
  case (Cons f fs)
  show ?thesis
  proof (cases f)
    case (Other_writes k' v')
    with Cons have "found s = (db s)(k' := v')"
      by (simp add: found_def)
    moreover from Cons Other_writes assms have "\<forall>v. v' = Some v \<longrightarrow> P v"
      by (simp add: only_records_def)
    ultimately show ?thesis
      using assms by (simp add: only_records_def)
  qed (use assms Cons in \<open>simp_all add: only_records_def found_def\<close>)
qed

lemma in_set_tl: "x \<in> set (tl xs) \<Longrightarrow> x \<in> set xs"
  by (cases xs) simp_all

lemma tl_only_records:
  assumes "only_records P s" and "\<forall>k v. d k = Some v \<longrightarrow> P v"
  shows "only_records P (command_sent (s\<lparr>db := d\<rparr>))"
  unfolding only_records_def command_sent_def
  using assms by (simp add: only_records_def) (blast dest: in_set_tl)

lemma failed_only_records:
  assumes "only_records P s"
  shows "only_records P (command_sent s)"
proof -
  have "\<forall>k v. db s k = Some v \<longrightarrow> P v"
    using assms by (simp add: only_records_def)
  from tl_only_records [OF assms this] show ?thesis
    by simp
qed

lemma set_keeps_records:
  assumes "only_records P s" and "P b"
  shows "only_records P (snd (client_set key b s))"
proof (cases key)
  case (JStr k)
  have "\<forall>k' v. ((found s)(k \<mapsto> b)) k' = Some v \<longrightarrow> P v"
    using found_only_records [OF assms(1)] assms(2) by simp
  with tl_only_records [OF assms(1), of "(found s)(k \<mapsto> b)"]
  have "only_records P (command_sent (s\<lparr>db := (found s)(k \<mapsto> b)\<rparr>))"
    by blast
  with failed_only_records [OF assms(1)] show ?thesis
    using JStr by simp
qed (use assms in simp_all)

lemma get_keeps_records:
  assumes "only_records P s"
  shows "only_records P (snd (client_get key s))"
proof (cases key)
  case (JStr k)
  from tl_only_records [OF assms found_only_records [OF assms]] failed_only_records [OF assms]
  show ?thesis
    using JStr by simp
qed (use assms in simp_all)

lemma del_keeps_records:
  assumes "only_records P s"
  shows "only_records P (snd (client_del key s))"
proof (cases key)
  case (JStr k)
  have "\<forall>k' v. ((found s)(k := None)) k' = Some v \<longrightarrow> P v"
    using found_only_records [OF assms] by simp
  with tl_only_records [OF assms, of "(found s)(k := None)"]
  have "only_records P (command_sent (s\<lparr>db := (found s)(k := None)\<rparr>))"
    by blast
  with failed_only_records [OF assms] show ?thesis
    using JStr by simp
qed (use assms in simp_all)

lemma create_keeps_records:
  assumes "only_records P s" and "P (JSON_stringify L d)"
  shows "only_records P (snd (create_plan L d s))"
proof (cases "\<exists>oid. jget d ''objectId'' = Some oid \<and> truthy oid")
  case False
  then have "create_plan L d s = (missing_objectId, s)"
    by (auto simp: create_plan_def create_try_def catch_500_def Let_def split: option.splits)
  with assms(1) show ?thesis by simp
next
  case True
  then obtain oid where oid: "jget d ''objectId'' = Some oid" "truthy oid"
    by blast
  let ?s1 = "snd (client_set oid (JSON_stringify L d) s)"
  have 1: "only_records P ?s1"
    using assms by (rule set_keeps_records)
  have "snd (create_plan L d s) = ?s1 \<or> snd (create_plan L d s) = snd (client_get oid ?s1)"
    using oid
    by (auto simp: create_plan_def create_try_def Let_def split: prod.splits sum.splits
          option.splits)
  with 1 get_keeps_records [OF 1, of oid] show ?thesis
    by auto
qed

lemma app_keeps_records:
  assumes "only_records P s" and "\<forall>d. P (JSON_stringify L d)"
  shows "only_records P (snd (app L sch rq s))"
proof (cases "isReady s")
  case False
  with assms(1) show ?thesis by (simp add: app_def)
next
  case True
  show ?thesis
  proof (cases rq)
    case (POST_plan reqbody)
    have "only_records P (snd (create_plan L (transformDate L reqbody) s))"
      using assms by (intro create_keeps_records) auto
    with True POST_plan assms(1) show ?thesis
      by (auto simp: app_def post_route_def Let_def split: option.splits)
  next
    case (GET_plan key inm)
    have "snd (read_plan L key inm s) = snd (client_get (JStr key) s)"
      by (auto simp: read_plan_def read_try_def Let_def split: prod.splits sum.splits
            option.splits)
    then have "only_records P (snd (read_plan L key inm s))"
      using get_keeps_records [OF assms(1), of "JStr key"] by (simp only:)
    with True GET_plan show ?thesis
      by (simp add: app_def)
  next
    case (DELETE_plan key)
    have "snd (delete_plan key s) = snd (client_del (JStr key) s)"
      by (auto simp: delete_plan_def delete_try_def split: prod.splits sum.splits)
    then have "only_records P (snd (delete_plan key s))"
      using del_keeps_records [OF assms(1), of "JStr key"] by (simp only:)
    with True DELETE_plan show ?thesis
      by (simp add: app_def)
  qed
qed

lemma serve_keeps_records:
  assumes "\<forall>d. P (JSON_stringify L d)"
  shows "only_records P s \<Longrightarrow> only_records P (snd (serve L sch rqs s))"
proof (induction rqs arbitrary: s)
  case Nil
  then show ?case by simp
next
  case (Cons rq rqs)
  have "only_records P (snd (app L sch rq s))"
    using Cons.prems assms by (rule app_keeps_records)
  from Cons.IH [OF this] show ?case
    by (auto split: prod.splits)
qed

subsection \<open>The sample data\<close>

lemma moment_sample: "moment_format sample_libs = dmy_to_ymd"
  by (simp add: sample_libs_def)

lemma dmy_text_samples: "dmy_text ''25-12-2023''" "dmy_text ''01-02-2024''"
  by (simp_all add: dmy_text_def is_digit_def digit_val_def digits_val_def days_in_month_def
        leap_year_def)

lemma ymd_samples:
  "ymd_of_dmy ''25-12-2023'' = ''2023-12-25''" "ymd_of_dmy ''01-02-2024'' = ''2024-02-01''"
  by (simp_all add: ymd_of_dmy_def)

lemma dmy_to_ymd_samples:
  "dmy_to_ymd (JStr ''25-12-2023'') = ''2023-12-25''"
  "dmy_to_ymd (JStr ''01-02-2024'') = ''2024-02-01''"
  "dmy_to_ymd (JNum 5) = ''Invalid date''"
  by (simp_all add: dmy_to_ymd_def dmy_text_samples ymd_samples)

lemma moment_reformats_sample: "moment_reformats sample_libs"
  by (simp add: moment_reformats_def moment_sample dmy_to_ymd_def)

lemma transformDate_sample: "transformDate sample_libs sample_doc = sample_stored"
  by (simp add: transformDate_def moment_sample dmy_to_ymd_samples sample_doc_def
        sample_stored_def)

lemma transformDate_second: "transformDate sample_libs second_doc = second_stored"
  by (simp add: transformDate_def moment_sample dmy_to_ymd_samples second_doc_def
        second_stored_def)

lemma validate_sample_stored: "validate sample_libs sample_schema sample_stored = []"
  by (simp add: validate_def check_field_def sample_schema_def sample_stored_def)

lemma validate_second_stored: "validate sample_libs sample_schema second_stored = []"
  by (simp add: validate_def check_field_def sample_schema_def second_stored_def)

lemma stringify_sample_stored: "JSON_stringify sample_libs sample_stored = sample_bytes"
  by (simp add: sample_libs_def sample_codec_def)

lemma stringify_second_stored: "JSON_stringify sample_libs second_stored = second_bytes"
  by (simp add: sample_libs_def sample_codec_def sample_stored_def second_stored_def)

lemma parse_sample_bytes: "JSON_parse sample_libs sample_bytes = Some sample_stored"
  by (simp add: sample_libs_def sample_codec_def)

lemma parse_second_bytes: "JSON_parse sample_libs second_bytes = Some second_stored"
  by (simp add: sample_libs_def sample_codec_def sample_bytes_def second_bytes_def)

lemma etag_sample: "etag sample_libs b = ''tag-'' @ b"
  by (simp add: sample_libs_def)

lemma sample_bytes_nonempty: "sample_bytes \<noteq> []" "second_bytes \<noteq> []"
  by (simp_all add: sample_bytes_def second_bytes_def)

lemma oid_sample_stored: "jget sample_stored ''objectId'' = Some (JStr ''abc123'')"
  by (simp add: sample_stored_def)

lemma oid_second_stored: "jget second_stored ''objectId'' = Some (JStr ''abc123'')"
  by (simp add: second_stored_def)






section \<open>Properties of the specification\<close>

text \<open>
  C1 (round trip). For a valid document \<open>D\<close> whose \<open>objectId\<close> is a non-empty string,
  on a ready client whose engine does not fail, and provided \<open>JSON.parse\<close> inverts
  \<open>JSON.stringify\<close> on the normalized document and its serialization is not empty:
  the POST answers 201 with the normalized document and a fingerprint \<open>e\<close>, and the GET
  of \<open>D.objectId\<close> without \<open>If-None-Match\<close> that follows answers 200 with the same
  document and the same fingerprint \<open>e\<close>. The normalized document has the properties
  of \<open>D\<close>, except that a truthy \<open>creationDate\<close> is replaced by its reformatted
  string.
\<close>

theorem create_read_round_trip:
  assumes "isReady s" and "faults s = []"
    and "validate L sch (transformDate L D) = []"
    and "jget D ''objectId'' = Some (JStr k)" and "k \<noteq> []"
    and "JSON_stringify L (transformDate L D) \<noteq> []"
    and "JSON_parse L (JSON_stringify L (transformDate L D)) = Some (transformDate L D)"
  shows "\<exists>e s1.
      app L sch (POST_plan D) s =
        (\<lparr>status = 201, headers = [(''ETag'', e)], body = Some (transformDate L D)\<rparr>, s1)
    \<and> app L sch (GET_plan k None) s1 =
        (\<lparr>status = 200, headers = [(''ETag'', e)], body = Some (transformDate L D)\<rparr>, s1)
    \<and> (\<forall>f. f \<noteq> ''creationDate'' \<longrightarrow> jget (transformDate L D) f = jget D f)
    \<and> jget (transformDate L D) ''creationDate'' =
        (case jget D ''creationDate'' of
           None \<Rightarrow> None
         | Some v \<Rightarrow> Some (if truthy v then JStr (moment_format L v) else v))"
proof -
  let ?D = "transformDate L D"
  let ?bytes = "JSON_stringify L ?D"
  let ?s1 = "s\<lparr>db := (db s)(k \<mapsto> ?bytes)\<rparr>"
  have oid: "jget ?D ''objectId'' = Some (JStr k)"
    using assms(4) by (simp add: jget_transformDate_other)
  have post: "app L sch (POST_plan D) s =
      (\<lparr>status = 201, headers = [(''ETag'', etag L ?bytes)], body = Some ?D\<rparr>, ?s1)"
    using assms(1,2,3,5,7) oid
    by (simp add: app_def post_route_valid create_plan_healthy)
  have get: "app L sch (GET_plan k None) ?s1 =
      (\<lparr>status = 200, headers = [(''ETag'', etag L ?bytes)], body = Some ?D\<rparr>, ?s1)"
    using assms(1,2,6,7) by (simp add: app_def read_plan_healthy fresh_no_token)
  have other: "\<forall>f. f \<noteq> ''creationDate'' \<longrightarrow> jget ?D f = jget D f"
    by (simp add: jget_transformDate_other)
  have date: "jget ?D ''creationDate'' =
        (case jget D ''creationDate'' of
           None \<Rightarrow> None
         | Some v \<Rightarrow> Some (if truthy v then JStr (moment_format L v) else v))"
    by (auto simp: transformDate_def jget_jset_same split: option.splits)
  from post get other date show ?thesis by blast
qed

text \<open>The round trip of the sample plan on the empty store.\<close>

theorem create_read_round_trip_witness:
  "fst (app sample_libs sample_schema (POST_plan sample_doc) empty_store) =
     \<lparr>status = 201, headers = [(''ETag'', ''tag-'' @ sample_bytes)], body = Some sample_stored\<rparr>
   \<and> fst (app sample_libs sample_schema (GET_plan ''abc123'' None)
            (snd (app sample_libs sample_schema (POST_plan sample_doc) empty_store))) =
     \<lparr>status = 200, headers = [(''ETag'', ''tag-'' @ sample_bytes)], body = Some sample_stored\<rparr>
   \<and> jget sample_stored ''plan'' = jget sample_doc ''plan''
   \<and> jget sample_stored ''creationDate'' = Some (JStr ''2023-12-25'')"
proof -
  have h1: "isReady empty_store" and h2: "faults empty_store = []"
    by (simp_all add: empty_store_def)
  have h3: "validate sample_libs sample_schema (transformDate sample_libs sample_doc) = []"
    by (simp add: transformDate_sample validate_sample_stored)
  have h4: "jget sample_doc ''objectId'' = Some (JStr ''abc123'')" and h5: "''abc123'' \<noteq> []"
    by (simp_all add: sample_doc_def)
  have h6: "JSON_stringify sample_libs (transformDate sample_libs sample_doc) \<noteq> []"
    by (simp add: transformDate_sample stringify_sample_stored sample_bytes_nonempty)
  have h7: "JSON_parse sample_libs (JSON_stringify sample_libs (transformDate sample_libs sample_doc))
              = Some (transformDate sample_libs sample_doc)"
    by (simp add: transformDate_sample stringify_sample_stored parse_sample_bytes)
  from create_read_round_trip [OF h1 h2 h3 h4 h5 h6 h7]
  obtain e s1 where
    post: "app sample_libs sample_schema (POST_plan sample_doc) empty_store =
        (\<lparr>status = 201, headers = [(''ETag'', e)],
          body = Some (transformDate sample_libs sample_doc)\<rparr>, s1)"
    and get: "app sample_libs sample_schema (GET_plan ''abc123'' None) s1 =
        (\<lparr>status = 200, headers = [(''ETag'', e)],
          body = Some (transformDate sample_libs sample_doc)\<rparr>, s1)"
    and other: "\<forall>f. f \<noteq> ''creationDate'' \<longrightarrow>
          jget (transformDate sample_libs sample_doc) f = jget sample_doc f"
    and date: "jget (transformDate sample_libs sample_doc) ''creationDate'' =
        (case jget sample_doc ''creationDate'' of
           None \<Rightarrow> None
         | Some v \<Rightarrow> Some (if truthy v then JStr (moment_format sample_libs v) else v))"
    by blast
  have oid: "jget sample_stored ''objectId'' = Some (JStr ''abc123'')"
    by (simp add: sample_stored_def)
  have e: "e = ''tag-'' @ sample_bytes"
    using post h1 h3
    by (simp add: app_def post_route_valid create_plan_healthy [OF h2 oid h5]
          transformDate_sample stringify_sample_stored parse_sample_bytes etag_sample)
  have plan: "jget sample_stored ''plan'' = jget sample_doc ''plan''"
    using other by (simp add: transformDate_sample)
  have d: "jget sample_stored ''creationDate'' = Some (JStr ''2023-12-25'')"
    using date [unfolded transformDate_sample]
    by (simp add: sample_doc_def moment_sample dmy_to_ymd_samples)
  from post get e plan d show ?thesis
    by (simp add: transformDate_sample)
qed

text \<open>
  C2 (read case analysis), as stated, fails: a token that is not the fingerprint does
  not always get the document. The weak form \<open>W/\<close> of the fingerprint differs from the
  fingerprint, the handler's comparison fails, and the freshness check of \<open>res.json\<close>
  then answers 304, with the fingerprint in \<open>ETag\<close> and no body.
\<close>

theorem weak_token_not_modified:
  "db sample_store ''abc123'' = Some sample_bytes
   \<and> ''W/tag-'' @ sample_bytes \<noteq> etag sample_libs sample_bytes
   \<and> app sample_libs sample_schema
         (GET_plan ''abc123'' (Some (''W/tag-'' @ sample_bytes))) sample_store =
       (\<lparr>status = 304, headers = [(''ETag'', ''tag-'' @ sample_bytes)], body = None\<rparr>,
        sample_store)"
proof -
  have p: "isReady sample_store" "faults sample_store = []"
      "db sample_store ''abc123'' = Some sample_bytes"
    by (simp_all add: sample_store_def)
  have "fresh (Some (''W/'' @ (''tag-'' @ sample_bytes))) (''tag-'' @ sample_bytes)"
    by (rule fresh_weak) (simp_all add: sample_bytes_def)
  with p show ?thesis
    by (simp add: app_def read_plan_healthy sample_bytes_nonempty parse_sample_bytes etag_sample)
qed

text \<open>
  C2, amended. On a ready client whose engine does not fail, for every key and every
  optional \<open>If-None-Match\<close> of a request without \<open>Cache-Control\<close> and
  \<open>If-Modified-Since\<close>: an absent key is answered 404. A key that holds a record
  (non-empty bytes) is answered 304 without headers or body when the token is exactly
  the fingerprint of the stored bytes. Otherwise, when the stored bytes decode, the
  answer is 304 with the fingerprint in \<open>ETag\<close> and no body if the token is fresh, and
  200 with the decoded document and the fingerprint in \<open>ETag\<close> if it is not. No token
  is never fresh; a token without commas and spaces is fresh exactly when it is \<open>*\<close>
  or equals the fingerprint up to a prefix \<open>W/\<close> on either side.
\<close>

theorem read_case_analysis:
  assumes "isReady s" and "faults s = []"
  shows "(db s k = None \<longrightarrow> app L sch (GET_plan k inm) s = (plan_not_found, s))
    \<and> (\<forall>v. db s k = Some v \<and> v \<noteq> [] \<and> inm = Some (etag L v) \<longrightarrow>
          app L sch (GET_plan k inm) s = (\<lparr>status = 304, headers = [], body = None\<rparr>, s))
    \<and> (\<forall>v doc. db s k = Some v \<and> v \<noteq> [] \<and> inm \<noteq> Some (etag L v)
            \<and> JSON_parse L v = Some doc \<and> fresh inm (etag L v) \<longrightarrow>
          app L sch (GET_plan k inm) s =
            (\<lparr>status = 304, headers = [(''ETag'', etag L v)], body = None\<rparr>, s))
    \<and> (\<forall>v doc. db s k = Some v \<and> v \<noteq> [] \<and> inm \<noteq> Some (etag L v)
            \<and> JSON_parse L v = Some doc \<and> \<not> fresh inm (etag L v) \<longrightarrow>
          app L sch (GET_plan k inm) s =
            (\<lparr>status = 200, headers = [(''ETag'', etag L v)], body = Some doc\<rparr>, s))
    \<and> status plan_not_found = 404
    \<and> (\<forall>e. \<not> fresh None e)
    \<and> (\<forall>t e. CHR '','' \<notin> set t \<and> CHR '' '' \<notin> set t \<longrightarrow>
          fresh (Some t) e =
            (t \<noteq> [] \<and> (t = ''*'' \<or> e \<noteq> [] \<and> (t = e \<or> t = ''W/'' @ e \<or> ''W/'' @ t = e))))"
proof -
  have routes: "(db s k = None \<longrightarrow> app L sch (GET_plan k inm) s = (plan_not_found, s))
    \<and> (\<forall>v. db s k = Some v \<and> v \<noteq> [] \<and> inm = Some (etag L v) \<longrightarrow>
          app L sch (GET_plan k inm) s = (\<lparr>status = 304, headers = [], body = None\<rparr>, s))
    \<and> (\<forall>v doc. db s k = Some v \<and> v \<noteq> [] \<and> inm \<noteq> Some (etag L v)
            \<and> JSON_parse L v = Some doc \<and> fresh inm (etag L v) \<longrightarrow>
          app L sch (GET_plan k inm) s =
            (\<lparr>status = 304, headers = [(''ETag'', etag L v)], body = None\<rparr>, s))
    \<and> (\<forall>v doc. db s k = Some v \<and> v \<noteq> [] \<and> inm \<noteq> Some (etag L v)
            \<and> JSON_parse L v = Some doc \<and> \<not> fresh inm (etag L v) \<longrightarrow>
          app L sch (GET_plan k inm) s =
            (\<lparr>status = 200, headers = [(''ETag'', etag L v)], body = Some doc\<rparr>, s))
    \<and> status plan_not_found = 404"
    using assms by (simp add: app_def read_plan_healthy plan_not_found_def)
  have plain: "fresh (Some t) e =
      (t \<noteq> [] \<and> (t = ''*'' \<or> e \<noteq> [] \<and> (t = e \<or> t = ''W/'' @ e \<or> ''W/'' @ t = e)))"
    if "CHR '','' \<notin> set t \<and> CHR '' '' \<notin> set t" for t e
    using that by (simp add: fresh_def parseTokenList_plain)
  from routes plain show ?thesis
    by (simp add: fresh_no_token)
qed

text \<open>
  On the sample store: an absent key, the exact fingerprint, its weak form, the token
  \<open>*\<close>, another token and no token.
\<close>

theorem read_case_analysis_witness:
  "app sample_libs sample_schema (GET_plan ''abc123'' None) empty_store =
     (\<lparr>status = 404, headers = [], body = Some (json_error ''Plan not found'')\<rparr>, empty_store)
   \<and> app sample_libs sample_schema (GET_plan ''abc123'' (Some (''tag-'' @ sample_bytes))) sample_store =
     (\<lparr>status = 304, headers = [], body = None\<rparr>, sample_store)
   \<and> app sample_libs sample_schema (GET_plan ''abc123'' (Some (''W/tag-'' @ sample_bytes))) sample_store =
     (\<lparr>status = 304, headers = [(''ETag'', ''tag-'' @ sample_bytes)], body = None\<rparr>, sample_store)
   \<and> app sample_libs sample_schema (GET_plan ''abc123'' (Some ''*'')) sample_store =
     (\<lparr>status = 304, headers = [(''ETag'', ''tag-'' @ sample_bytes)], body = None\<rparr>, sample_store)
   \<and> app sample_libs sample_schema (GET_plan ''abc123'' (Some ''tag-x'')) sample_store =
     (\<lparr>status = 200, headers = [(''ETag'', ''tag-'' @ sample_bytes)], body = Some sample_stored\<rparr>,
      sample_store)
   \<and> app sample_libs sample_schema (GET_plan ''abc123'' None) sample_store =
     (\<lparr>status = 200, headers = [(''ETag'', ''tag-'' @ sample_bytes)], body = Some sample_stored\<rparr>,
      sample_store)"
proof -
  let ?e = "etag sample_libs sample_bytes"
  have e: "isReady empty_store" "faults empty_store = []" "db empty_store ''abc123'' = None"
    by (simp_all add: empty_store_def)
  have p: "isReady sample_store" "faults sample_store = []"
      "db sample_store ''abc123'' = Some sample_bytes"
    by (simp_all add: sample_store_def)
  have tag: "?e = ''tag-'' @ sample_bytes" "?e \<noteq> []"
      "CHR '','' \<notin> set ?e \<and> CHR '' '' \<notin> set ?e"
    by (simp_all add: etag_sample sample_bytes_def)
  have tokens: "Some (''W/'' @ ?e) \<noteq> Some ?e" "Some ''*'' \<noteq> Some ?e"
      "Some ''tag-x'' \<noteq> Some ?e" "None \<noteq> Some ?e"
    by (simp_all add: etag_sample sample_bytes_def)
  have plain: "CHR '','' \<notin> set (''W/'' @ ?e) \<and> CHR '' '' \<notin> set (''W/'' @ ?e)"
      "CHR '','' \<notin> set ''*'' \<and> CHR '' '' \<notin> set ''*''"
      "CHR '','' \<notin> set ''tag-x'' \<and> CHR '' '' \<notin> set ''tag-x''"
    using tag(3) by simp_all
  note absent = read_case_analysis [OF e(1,2), where k = "''abc123''" and L = sample_libs
      and sch = sample_schema and inm = None]
  note t = read_case_analysis [OF p(1,2), where k = "''abc123''" and L = sample_libs
      and sch = sample_schema]
  have f1: "fresh (Some (''W/'' @ ?e)) ?e"
    using t [where inm = None] plain(1) tag(2) by blast
  have f2: "fresh (Some ''*'') ?e"
    using t [where inm = None] plain(2) by blast
  have "''tag-x'' \<noteq> ?e \<and> ''tag-x'' \<noteq> ''W/'' @ ?e \<and> ''W/'' @ ''tag-x'' \<noteq> ?e
      \<and> ''tag-x'' \<noteq> ''*''"
    by (simp add: etag_sample sample_bytes_def)
  then have f3: "\<not> fresh (Some ''tag-x'') ?e"
    using t [where inm = None] plain(3) by blast
  have f4: "\<not> fresh None ?e"
    using t [where inm = None] by blast
  have "app sample_libs sample_schema (GET_plan ''abc123'' None) empty_store =
          (plan_not_found, empty_store)"
    using absent e(3) by blast
  moreover have "app sample_libs sample_schema (GET_plan ''abc123'' (Some ?e)) sample_store =
          (\<lparr>status = 304, headers = [], body = None\<rparr>, sample_store)"
    using t [where inm = "Some ?e"] p(3) sample_bytes_nonempty(1) by blast
  moreover have "app sample_libs sample_schema (GET_plan ''abc123'' (Some (''W/'' @ ?e)))
          sample_store =
          (\<lparr>status = 304, headers = [(''ETag'', ?e)], body = None\<rparr>, sample_store)"
    using t [where inm = "Some (''W/'' @ ?e)"] p(3) sample_bytes_nonempty(1) tokens(1)
      parse_sample_bytes f1
    by blast
  moreover have "app sample_libs sample_schema (GET_plan ''abc123'' (Some ''*'')) sample_store =
          (\<lparr>status = 304, headers = [(''ETag'', ?e)], body = None\<rparr>, sample_store)"
    using t [where inm = "Some ''*''"] p(3) sample_bytes_nonempty(1) tokens(2)
      parse_sample_bytes f2
    by blast
  moreover have "app sample_libs sample_schema (GET_plan ''abc123'' (Some ''tag-x''))
          sample_store =
          (\<lparr>status = 200, headers = [(''ETag'', ?e)], body = Some sample_stored\<rparr>, sample_store)"
    using t [where inm = "Some ''tag-x''"] p(3) sample_bytes_nonempty(1) tokens(3)
      parse_sample_bytes f3
    by blast
  moreover have "app sample_libs sample_schema (GET_plan ''abc123'' None) sample_store =
          (\<lparr>status = 200, headers = [(''ETag'', ?e)], body = Some sample_stored\<rparr>, sample_store)"
    using t [where inm = None] p(3) sample_bytes_nonempty(1) tokens(4) parse_sample_bytes f4
    by blast
  ultimately show ?thesis
    by (simp add: plan_not_found_def tag(1))
qed

text \<open>
  C3 (create, step by step). For a document whose \<open>objectId\<close> is a non-empty string:
  when nothing happens to the commands and \<open>JSON.parse\<close> decodes the serialization of
  the document to \<open>doc\<close>, the POST handler stores the serialization under \<open>objectId\<close>,
  whatever the key held before, and changes no other key; it answers 201 with \<open>doc\<close>,
  and its \<open>ETag\<close> is the fingerprint of the bytes that the store holds under the key
  after the write, which decode to \<open>doc\<close>. The fingerprint and the document of the
  response come from the reply to a second command, the re-fetch, and not from the bytes
  that were written: when another client overwrites the key between the write and the
  re-fetch, the response carries the fingerprint of the other client's bytes and the
  document they decode to; and when the engine carries out the write and fails the
  re-fetch, the bytes are stored and the handler answers 500 without an \<open>ETag\<close>.
\<close>

theorem create_steps:
  assumes "jget D ''objectId'' = Some (JStr k)" and "k \<noteq> []"
  shows "(faults s = [] \<and> JSON_parse L (JSON_stringify L D) = Some doc \<longrightarrow>
           (\<exists>bytes s'.
               create_plan L D s =
                 (\<lparr>status = 201, headers = [(''ETag'', etag L bytes)], body = Some doc\<rparr>, s')
             \<and> db s' = (db s)(k \<mapsto> JSON_stringify L D)
             \<and> db s' k = Some bytes
             \<and> JSON_parse L bytes = Some doc
             \<and> isReady s' = isReady s))
    \<and> (\<forall>other doc' fs.
           faults s = No_fault # Other_writes k (Some other) # fs
           \<and> JSON_parse L other = Some doc' \<longrightarrow>
           create_plan L D s =
             (\<lparr>status = 201, headers = [(''ETag'', etag L other)], body = Some doc'\<rparr>,
              s\<lparr>db := (db s)(k \<mapsto> other), faults := fs\<rparr>))
    \<and> (\<forall>fs. faults s = No_fault # Engine_fails # fs \<longrightarrow>
           create_plan L D s =
             (\<lparr>status = 500, headers = [], body = Some (json_error ''Error creating plan'')\<rparr>,
              s\<lparr>db := (db s)(k \<mapsto> JSON_stringify L D), faults := fs\<rparr>))"
proof -
  let ?s' = "s\<lparr>db := (db s)(k \<mapsto> JSON_stringify L D)\<rparr>"
  have written: "\<exists>bytes s'.
               create_plan L D s =
                 (\<lparr>status = 201, headers = [(''ETag'', etag L bytes)], body = Some doc\<rparr>, s')
             \<and> db s' = (db s)(k \<mapsto> JSON_stringify L D)
             \<and> db s' k = Some bytes
             \<and> JSON_parse L bytes = Some doc
             \<and> isReady s' = isReady s"
    if healthy: "faults s = []" and parsed: "JSON_parse L (JSON_stringify L D) = Some doc"
  proof -
    have "create_plan L D s =
        (\<lparr>status = 201, headers = [(''ETag'', etag L (JSON_stringify L D))], body = Some doc\<rparr>,
         ?s')"
      using assms healthy parsed by (simp add: create_plan_healthy)
    moreover have "db ?s' = (db s)(k \<mapsto> JSON_stringify L D)"
      and "db ?s' k = Some (JSON_stringify L D)"
      and "isReady ?s' = isReady s"
      by simp_all
    ultimately show ?thesis
      using parsed by blast
  qed
  have refetched: "create_plan L D s =
             (\<lparr>status = 201, headers = [(''ETag'', etag L other)], body = Some doc'\<rparr>,
              s\<lparr>db := (db s)(k \<mapsto> other), faults := fs\<rparr>)"
    if "faults s = No_fault # Other_writes k (Some other) # fs"
      and "JSON_parse L other = Some doc'" for other doc' fs
    using assms that
    by (simp add: create_plan_def create_try_def catch_500_def next_fails_def found_def
          command_sent_def Let_def)
  have failed: "create_plan L D s =
             (\<lparr>status = 500, headers = [], body = Some (json_error ''Error creating plan'')\<rparr>,
              s\<lparr>db := (db s)(k \<mapsto> JSON_stringify L D), faults := fs\<rparr>)"
    if "faults s = No_fault # Engine_fails # fs" for fs
    using assms that
    by (simp add: create_plan_def create_try_def catch_500_def next_fails_def found_def
          command_sent_def Let_def)
  from written refetched failed show ?thesis
    by blast
qed

text \<open>
  The second sample plan written over the stored first one; the first sample plan
  written while another client writes the bytes of the second; and a write whose
  re-fetch the engine fails.
\<close>

theorem create_steps_witness:
  "fst (create_plan sample_libs second_stored sample_store) =
     \<lparr>status = 201, headers = [(''ETag'', ''tag-'' @ second_bytes)], body = Some second_stored\<rparr>
   \<and> db (snd (create_plan sample_libs second_stored sample_store)) ''abc123'' = Some second_bytes
   \<and> JSON_stringify sample_libs sample_stored = sample_bytes
   \<and> fst (create_plan sample_libs sample_stored other_writer_store) =
     \<lparr>status = 201, headers = [(''ETag'', ''tag-'' @ second_bytes)], body = Some second_stored\<rparr>
   \<and> status (fst (create_plan sample_libs second_stored
         (sample_store\<lparr>faults := [No_fault, Engine_fails]\<rparr>))) = 500
   \<and> db (snd (create_plan sample_libs second_stored
         (sample_store\<lparr>faults := [No_fault, Engine_fails]\<rparr>))) ''abc123'' = Some second_bytes"
proof -
  have h1: "faults sample_store = []"
    by (simp add: sample_store_def)
  have h3: "''abc123'' \<noteq> []"
    by simp
  have h4: "JSON_parse sample_libs (JSON_stringify sample_libs second_stored) = Some second_stored"
    by (simp add: stringify_second_stored parse_second_bytes)
  have h5: "faults (sample_store\<lparr>faults := [No_fault, Engine_fails]\<rparr>)
      = No_fault # Engine_fails # []"
    by simp
  have h6: "faults other_writer_store
      = No_fault # Other_writes ''abc123'' (Some second_bytes) # []"
    by (simp add: other_writer_store_def)
  from create_steps [OF oid_second_stored h3, where s = sample_store and L = sample_libs
      and doc = second_stored] h1 h4
  obtain bytes s' where
    r: "create_plan sample_libs second_stored sample_store =
        (\<lparr>status = 201, headers = [(''ETag'', etag sample_libs bytes)],
          body = Some second_stored\<rparr>, s')"
    and d: "db s' = (db sample_store)(''abc123'' \<mapsto> JSON_stringify sample_libs second_stored)"
    and b: "db s' ''abc123'' = Some bytes"
    by blast
  from d b have bytes: "bytes = second_bytes"
    by (simp add: stringify_second_stored)
  from create_steps [OF oid_sample_stored h3, where s = other_writer_store
      and L = sample_libs] h6 parse_second_bytes
  have o: "create_plan sample_libs sample_stored other_writer_store =
      (\<lparr>status = 201, headers = [(''ETag'', etag sample_libs second_bytes)],
        body = Some second_stored\<rparr>,
       other_writer_store\<lparr>db := (db other_writer_store)(''abc123'' \<mapsto> second_bytes),
         faults := []\<rparr>)"
    by blast
  from create_steps [OF oid_second_stored h3,
      where s = "sample_store\<lparr>faults := [No_fault, Engine_fails]\<rparr>" and L = sample_libs] h5
  have "create_plan sample_libs second_stored (sample_store\<lparr>faults := [No_fault, Engine_fails]\<rparr>) =
      (\<lparr>status = 500, headers = [], body = Some (json_error ''Error creating plan'')\<rparr>,
       sample_store\<lparr>faults := [No_fault, Engine_fails]\<rparr>
         \<lparr>db := (db (sample_store\<lparr>faults := [No_fault, Engine_fails]\<rparr>))
                  (''abc123'' \<mapsto> JSON_stringify sample_libs second_stored),
          faults := []\<rparr>)"
    by blast
  with r b bytes o show ?thesis
    by (simp add: etag_sample stringify_second_stored stringify_sample_stored)
qed





text \<open>
  C5 (delete). On a ready client whose engine does not fail: DELETE of a key that exists
  answers 200, removes that key and no other, and a GET of the key afterwards answers
  404 whatever its token; DELETE of a key that does not exist answers 404 and leaves the
  client as it was. The two cases are told apart by the count that \<open>client.del\<close>
  returns, which is 0 exactly when the key is absent.
\<close>

theorem delete_semantics:
  assumes "isReady s" and "faults s = []"
  shows "(db s k \<noteq> None \<longrightarrow>
           (\<exists>s'. app L sch (DELETE_plan k) s = (plan_deleted, s')
              \<and> db s' k = None
              \<and> (\<forall>k'. k' \<noteq> k \<longrightarrow> db s' k' = db s k')
              \<and> fst (app L sch (GET_plan k inm) s') = plan_not_found))
    \<and> (db s k = None \<longrightarrow> app L sch (DELETE_plan k) s = (plan_not_found, s))
    \<and> (fst (client_del (JStr k) s) = Inr 0 \<longleftrightarrow> db s k = None)
    \<and> status plan_deleted = 200 \<and> status plan_not_found = 404"
proof -
  let ?s' = "s\<lparr>db := (db s)(k := None)\<rparr>"
  have absent: "db s k = None \<Longrightarrow> ?s' = s"
    by (simp add: fun_upd_idem)
  have after: "fst (app L sch (GET_plan k inm) ?s') = plan_not_found"
    using assms by (simp add: app_def read_plan_healthy)
  have count: "fst (client_del (JStr k) s) = Inr 0 \<longleftrightarrow> db s k = None"
    using assms(2) by (simp add: next_fails_healthy found_healthy)
  show ?thesis
    using assms absent after count
    by (auto simp: app_def delete_plan_healthy plan_deleted_def plan_not_found_def)
qed

text \<open>Deleting the sample plan, reading it afterwards, and deleting from the empty store.\<close>

theorem delete_semantics_witness:
  "fst (app sample_libs sample_schema (DELETE_plan ''abc123'') sample_store) =
     \<lparr>status = 200, headers = [], body = Some (json_message ''Plan deleted successfully'')\<rparr>
   \<and> fst (app sample_libs sample_schema (GET_plan ''abc123'' None)
          (snd (app sample_libs sample_schema (DELETE_plan ''abc123'') sample_store))) =
     \<lparr>status = 404, headers = [], body = Some (json_error ''Plan not found'')\<rparr>
   \<and> app sample_libs sample_schema (DELETE_plan ''abc123'') empty_store =
     (\<lparr>status = 404, headers = [], body = Some (json_error ''Plan not found'')\<rparr>, empty_store)"
proof -
  have p: "isReady sample_store" "faults sample_store = []" "db sample_store ''abc123'' \<noteq> None"
    by (simp_all add: sample_store_def)
  have e: "isReady empty_store" "faults empty_store = []" "db empty_store ''abc123'' = None"
    by (simp_all add: empty_store_def)
  from delete_semantics [OF p(1,2), where k = "''abc123''" and L = sample_libs
      and sch = sample_schema and inm = None] p(3)
  obtain s' where
    "app sample_libs sample_schema (DELETE_plan ''abc123'') sample_store = (plan_deleted, s')"
    and "fst (app sample_libs sample_schema (GET_plan ''abc123'' None) s') = plan_not_found"
    by blast
  moreover have "app sample_libs sample_schema (DELETE_plan ''abc123'') empty_store =
      (plan_not_found, empty_store)"
    using delete_semantics [OF e(1,2), where k = "''abc123''" and L = sample_libs
      and sch = sample_schema and inm = None] e(3)
    by blast
  ultimately show ?thesis
    by (simp add: plan_deleted_def plan_not_found_def)
qed

text \<open>
  C6 (overwrite). For two valid documents with the same non-empty string \<open>objectId\<close>,
  on a ready client whose engine does not fail: after the first POST the key holds the
  serialization of the first normalized document; after the second POST the store is
  the original store with the key mapped to the serialization of the second normalized
  document, so nothing of the first one remains and no other key has changed; and a GET
  answers 200 with the second document, provided \<open>JSON.parse\<close> inverts
  \<open>JSON.stringify\<close> on it. The store is a map, so a key holds at most one record.
\<close>

theorem overwrite_semantics:
  assumes "isReady s" and "faults s = []"
    and "validate L sch (transformDate L D1) = []"
    and "validate L sch (transformDate L D2) = []"
    and "jget D1 ''objectId'' = Some (JStr k)"
    and "jget D2 ''objectId'' = Some (JStr k)" and "k \<noteq> []"
    and "JSON_stringify L (transformDate L D2) \<noteq> []"
    and "JSON_parse L (JSON_stringify L (transformDate L D2)) = Some (transformDate L D2)"
  shows "\<exists>r1 s1 r2 s2.
      app L sch (POST_plan D1) s = (r1, s1)
    \<and> db s1 k = Some (JSON_stringify L (transformDate L D1))
    \<and> app L sch (POST_plan D2) s1 = (r2, s2)
    \<and> db s2 = (db s)(k \<mapsto> JSON_stringify L (transformDate L D2))
    \<and> app L sch (GET_plan k None) s2 =
        (\<lparr>status = 200, headers = [(''ETag'', etag L (JSON_stringify L (transformDate L D2)))],
          body = Some (transformDate L D2)\<rparr>, s2)"
proof -
  let ?b1 = "JSON_stringify L (transformDate L D1)"
  let ?b2 = "JSON_stringify L (transformDate L D2)"
  let ?s1 = "s\<lparr>db := (db s)(k \<mapsto> ?b1)\<rparr>"
  let ?s2 = "s\<lparr>db := (db s)(k \<mapsto> ?b2)\<rparr>"
  have oid1: "jget (transformDate L D1) ''objectId'' = Some (JStr k)"
    using assms(5) by (simp add: jget_transformDate_other)
  have oid2: "jget (transformDate L D2) ''objectId'' = Some (JStr k)"
    using assms(6) by (simp add: jget_transformDate_other)
  have p1: "snd (app L sch (POST_plan D1) s) = ?s1"
    using assms(1,2,3,7) oid1
    by (simp add: app_def post_route_valid create_plan_healthy split: option.splits)
  have p2: "snd (app L sch (POST_plan D2) ?s1) = ?s2"
    using assms(1,2,4,7) oid2
    by (simp add: app_def post_route_valid create_plan_healthy split: option.splits)
  have g: "app L sch (GET_plan k None) ?s2 =
        (\<lparr>status = 200, headers = [(''ETag'', etag L ?b2)], body = Some (transformDate L D2)\<rparr>, ?s2)"
    using assms(1,2,8,9) by (simp add: app_def read_plan_healthy fresh_no_token)
  have "app L sch (POST_plan D1) s = (fst (app L sch (POST_plan D1) s), ?s1)"
    using p1 by (simp add: prod_eq_iff)
  moreover have "app L sch (POST_plan D2) ?s1 = (fst (app L sch (POST_plan D2) ?s1), ?s2)"
    using p2 by (simp add: prod_eq_iff)
  moreover have "db ?s1 k = Some ?b1" and "db ?s2 = (db s)(k \<mapsto> ?b2)"
    by simp_all
  ultimately show ?thesis
    using g by blast
qed

text \<open>The two sample plans posted one after the other to the empty store.\<close>

theorem overwrite_semantics_witness:
  "db (snd (app sample_libs sample_schema (POST_plan sample_doc) empty_store)) ''abc123'' =
     Some sample_bytes
   \<and> db (snd (app sample_libs sample_schema (POST_plan second_doc)
          (snd (app sample_libs sample_schema (POST_plan sample_doc) empty_store)))) ''abc123'' =
     Some second_bytes
   \<and> fst (app sample_libs sample_schema (GET_plan ''abc123'' None)
        (snd (app sample_libs sample_schema (POST_plan second_doc)
          (snd (app sample_libs sample_schema (POST_plan sample_doc) empty_store))))) =
     \<lparr>status = 200, headers = [(''ETag'', ''tag-'' @ second_bytes)], body = Some second_stored\<rparr>"
proof -
  have h1: "isReady empty_store" and h2: "faults empty_store = []"
    by (simp_all add: empty_store_def)
  have h3: "validate sample_libs sample_schema (transformDate sample_libs sample_doc) = []"
    by (simp add: transformDate_sample validate_sample_stored)
  have h4: "validate sample_libs sample_schema (transformDate sample_libs second_doc) = []"
    by (simp add: transformDate_second validate_second_stored)
  have h5: "jget sample_doc ''objectId'' = Some (JStr ''abc123'')"
    by (simp add: sample_doc_def)
  have h6: "jget second_doc ''objectId'' = Some (JStr ''abc123'')"
    by (simp add: second_doc_def)
  have h7: "''abc123'' \<noteq> []"
    by simp
  have h8: "JSON_stringify sample_libs (transformDate sample_libs second_doc) \<noteq> []"
    by (simp add: transformDate_second stringify_second_stored sample_bytes_nonempty)
  have h9: "JSON_parse sample_libs (JSON_stringify sample_libs (transformDate sample_libs second_doc))
      = Some (transformDate sample_libs second_doc)"
    by (simp add: transformDate_second stringify_second_stored parse_second_bytes)
  from overwrite_semantics [OF h1 h2 h3 h4 h5 h6 h7 h8 h9]
  obtain r1 s1 r2 s2 where
    "app sample_libs sample_schema (POST_plan sample_doc) empty_store = (r1, s1)"
    and "db s1 ''abc123'' = Some (JSON_stringify sample_libs (transformDate sample_libs sample_doc))"
    and "app sample_libs sample_schema (POST_plan second_doc) s1 = (r2, s2)"
    and "db s2 = (db empty_store)(''abc123'' \<mapsto>
          JSON_stringify sample_libs (transformDate sample_libs second_doc))"
    and "app sample_libs sample_schema (GET_plan ''abc123'' None) s2 =
        (\<lparr>status = 200,
          headers = [(''ETag'', etag sample_libs
             (JSON_stringify sample_libs (transformDate sample_libs second_doc)))],
          body = Some (transformDate sample_libs second_doc)\<rparr>, s2)"
    by blast
  then show ?thesis
    by (simp add: transformDate_sample transformDate_second stringify_sample_stored
        stringify_second_stored etag_sample)
qed

text \<open>
  C7 (date normalization). Provided \<open>moment\<close> turns a day-month-year text into its
  year-month-day text: on every write, a \<open>creationDate\<close> that is a day-month-year text
  is replaced by its year-month-day text, in its place among the properties of the
  document, and no other property changes; a document without \<open>creationDate\<close> is left
  as it is, with no property added; and on a ready client the POST route validates the
  document that \<open>transformDate\<close> returns and hands that same document to the handler,
  so that the normalization comes before the validation.
\<close>

theorem transformDate_contract:
  assumes "moment_reformats L"
  shows "(\<forall>t. jget D ''creationDate'' = Some (JStr t) \<and> dmy_text t \<longrightarrow>
        transformDate L D = jset D ''creationDate'' (JStr (ymd_of_dmy t))
      \<and> jget (transformDate L D) ''creationDate'' = Some (JStr (ymd_of_dmy t))
      \<and> (\<forall>f. f \<noteq> ''creationDate'' \<longrightarrow> jget (transformDate L D) f = jget D f)
      \<and> (\<exists>kvs kvs'. D = JObj kvs \<and> transformDate L D = JObj kvs'
            \<and> map fst kvs' = map fst kvs))
   \<and> (jget D ''creationDate'' = None \<longrightarrow> transformDate L D = D)
   \<and> (isReady s \<longrightarrow>
        app L sch (POST_plan D) s =
          (if validate L sch (transformDate L D) \<noteq> []
           then (validation_failed (validate L sch (transformDate L D)), s)
           else create_plan L (transformDate L D) s))"
proof -
  have a: "transformDate L D = jset D ''creationDate'' (JStr (ymd_of_dmy t))
      \<and> jget (transformDate L D) ''creationDate'' = Some (JStr (ymd_of_dmy t))
      \<and> (\<forall>f. f \<noteq> ''creationDate'' \<longrightarrow> jget (transformDate L D) f = jget D f)
      \<and> (\<exists>kvs kvs'. D = JObj kvs \<and> transformDate L D = JObj kvs'
            \<and> map fst kvs' = map fst kvs)"
    if present: "jget D ''creationDate'' = Some (JStr t)" and date: "dmy_text t" for t
  proof -
    from date have "truthy (JStr t)"
      by (simp add: dmy_text_nonempty)
    moreover from assms date have "moment_format L (JStr t) = ymd_of_dmy t"
      by (simp add: moment_reformats_def)
    ultimately have 1: "transformDate L D = jset D ''creationDate'' (JStr (ymd_of_dmy t))"
      using present by (simp add: transformDate_truthy)
    from present obtain kvs where obj: "D = JObj kvs"
      by (cases D) simp_all
    with present have "''creationDate'' \<in> fst ` set kvs"
      by (auto dest: map_of_SomeD intro: rev_image_eqI)
    then have "map fst (AList.update ''creationDate'' (JStr (ymd_of_dmy t)) kvs) = map fst kvs"
      by (simp add: update_keys)
    with 1 obj have 2: "\<exists>kvs kvs'. D = JObj kvs \<and> transformDate L D = JObj kvs'
            \<and> map fst kvs' = map fst kvs"
      by simp
    from 1 2 present show ?thesis
      by (simp add: jget_jset_same jget_jset_other)
  qed
  have b: "jget D ''creationDate'' = None \<longrightarrow> transformDate L D = D"
    by (simp add: transformDate_absent)
  have c: "isReady s \<longrightarrow>
        app L sch (POST_plan D) s =
          (if validate L sch (transformDate L D) \<noteq> []
           then (validation_failed (validate L sch (transformDate L D)), s)
           else create_plan L (transformDate L D) s)"
    by (simp add: app_def post_route_valid post_route_invalid)
  from a b c show ?thesis
    by blast
qed

text \<open>The sample plan, and a plan without a date.\<close>

theorem transformDate_contract_witness:
  "transformDate sample_libs sample_doc = sample_stored
   \<and> jget (transformDate sample_libs sample_doc) ''creationDate'' = Some (JStr ''2023-12-25'')
   \<and> jget (transformDate sample_libs sample_doc) ''plan'' = Some (JStr ''gold'')
   \<and> transformDate sample_libs (JObj [(''objectId'', JStr ''abc123'')]) =
       JObj [(''objectId'', JStr ''abc123'')]
   \<and> app sample_libs sample_schema (POST_plan sample_doc) empty_store =
       create_plan sample_libs sample_stored empty_store"
proof -
  note t = transformDate_contract [OF moment_reformats_sample, where sch = sample_schema
      and s = empty_store]
  have d: "jget sample_doc ''creationDate'' = Some (JStr ''25-12-2023'')
      \<and> dmy_text ''25-12-2023''"
    by (simp add: sample_doc_def dmy_text_samples)
  have r: "isReady empty_store"
    by (simp add: empty_store_def)
  have p: "jget sample_doc ''plan'' = Some (JStr ''gold'')" "''plan'' \<noteq> ''creationDate''"
    by (simp_all add: sample_doc_def)
  from t [where D = sample_doc] d
  have 1: "transformDate sample_libs sample_doc =
        jset sample_doc ''creationDate'' (JStr (ymd_of_dmy ''25-12-2023''))"
    and 2: "jget (transformDate sample_libs sample_doc) ''creationDate'' =
        Some (JStr (ymd_of_dmy ''25-12-2023''))"
    and 3: "\<forall>f. f \<noteq> ''creationDate'' \<longrightarrow>
        jget (transformDate sample_libs sample_doc) f = jget sample_doc f"
    by blast+
  from 1 have 1: "transformDate sample_libs sample_doc = sample_stored"
    by (simp add: ymd_samples sample_doc_def sample_stored_def)
  from 2 have 2: "jget (transformDate sample_libs sample_doc) ''creationDate'' =
      Some (JStr ''2023-12-25'')"
    by (simp add: ymd_samples)
  from 3 p have 3: "jget (transformDate sample_libs sample_doc) ''plan'' = Some (JStr ''gold'')"
    by simp
  have "jget (JObj [(''objectId'', JStr ''abc123'')]) ''creationDate'' = None"
    by simp
  with t [where D = "JObj [(''objectId'', JStr ''abc123'')]"]
  have 4: "transformDate sample_libs (JObj [(''objectId'', JStr ''abc123'')]) =
       JObj [(''objectId'', JStr ''abc123'')]"
    by blast
  from t [where D = sample_doc] r
  have "app sample_libs sample_schema (POST_plan sample_doc) empty_store =
          (if validate sample_libs sample_schema (transformDate sample_libs sample_doc) \<noteq> []
           then (validation_failed
                   (validate sample_libs sample_schema (transformDate sample_libs sample_doc)),
                 empty_store)
           else create_plan sample_libs (transformDate sample_libs sample_doc) empty_store)"
    by blast
  then have 5: "app sample_libs sample_schema (POST_plan sample_doc) empty_store =
       create_plan sample_libs sample_stored empty_store"
    by (simp add: transformDate_sample validate_sample_stored)
  from 1 2 3 4 5 show ?thesis
    by simp
qed

text \<open>
  C8 (idempotent fingerprint). On a ready client whose engine does not fail: after any
  sequence of reads, a GET answers exactly as it did before them; two clients that hold
  the same bytes under a key answer a GET of that key with the same response, so the
  response depends on the store through the stored bytes only; and the \<open>ETag\<close> of a
  200 response is the function \<open>etag\<close> of the stored bytes. That \<open>etag\<close> is a
  function of the bytes alone is how the library enters the model.
\<close>

theorem fingerprint_idempotent:
  assumes "isReady s" and "faults s = []"
  shows "(\<forall>rqs. (\<forall>rq \<in> set rqs. is_read rq) \<longrightarrow>
            app L sch (GET_plan k inm) (snd (serve L sch rqs s)) = app L sch (GET_plan k inm) s)
    \<and> (\<forall>s2. isReady s2 \<and> faults s2 = [] \<and> db s2 k = db s k \<longrightarrow>
            fst (app L sch (GET_plan k inm) s2) = fst (app L sch (GET_plan k inm) s))
    \<and> (\<forall>v. db s k = Some v \<and> status (fst (app L sch (GET_plan k inm) s)) = 200 \<longrightarrow>
            headers (fst (app L sch (GET_plan k inm) s)) = [(''ETag'', etag L v)])"
proof -
  have a: "\<forall>rqs. (\<forall>rq \<in> set rqs. is_read rq) \<longrightarrow>
      app L sch (GET_plan k inm) (snd (serve L sch rqs s)) = app L sch (GET_plan k inm) s"
    using assms by (simp add: serve_reads)
  have b: "\<forall>s2. isReady s2 \<and> faults s2 = [] \<and> db s2 k = db s k \<longrightarrow>
      fst (app L sch (GET_plan k inm) s2) = fst (app L sch (GET_plan k inm) s)"
    using assms by (auto simp: app_def read_plan_healthy split: option.splits)
  have c: "\<forall>v. db s k = Some v \<and> status (fst (app L sch (GET_plan k inm) s)) = 200 \<longrightarrow>
      headers (fst (app L sch (GET_plan k inm) s)) = [(''ETag'', etag L v)]"
    using assms
    by (auto simp: app_def read_plan_healthy plan_not_found_def split: option.splits if_splits)
  from a b c show ?thesis by blast
qed

text \<open>A third read of the sample plan after two others.\<close>

theorem fingerprint_idempotent_witness:
  "app sample_libs sample_schema (GET_plan ''abc123'' None)
     (snd (serve sample_libs sample_schema
        [GET_plan ''abc123'' None, GET_plan ''abc123'' (Some ''x'')] sample_store)) =
   app sample_libs sample_schema (GET_plan ''abc123'' None) sample_store
   \<and> headers (fst (app sample_libs sample_schema (GET_plan ''abc123'' None) sample_store)) =
       [(''ETag'', ''tag-'' @ sample_bytes)]"
proof -
  have p: "isReady sample_store" "faults sample_store = []"
      "db sample_store ''abc123'' = Some sample_bytes"
    by (simp_all add: sample_store_def)
  note t = fingerprint_idempotent [OF p(1,2), where L = sample_libs and sch = sample_schema
      and k = "''abc123''" and inm = None]
  have reads: "\<forall>rq \<in> set [GET_plan ''abc123'' None, GET_plan ''abc123'' (Some ''x'')]. is_read rq"
    by (simp add: is_read_def)
  have ok: "status (fst (app sample_libs sample_schema (GET_plan ''abc123'' None) sample_store)) = 200"
    using p by (simp add: app_def read_plan_healthy sample_bytes_nonempty parse_sample_bytes)
  from t reads have "app sample_libs sample_schema (GET_plan ''abc123'' None)
     (snd (serve sample_libs sample_schema
        [GET_plan ''abc123'' None, GET_plan ''abc123'' (Some ''x'')] sample_store)) =
     app sample_libs sample_schema (GET_plan ''abc123'' None) sample_store"
    by blast
  moreover from t p(3) ok
  have "headers (fst (app sample_libs sample_schema (GET_plan ''abc123'' None) sample_store)) =
      [(''ETag'', etag sample_libs sample_bytes)]"
    by blast
  ultimately show ?thesis
    by (simp add: etag_sample)
qed

text \<open>
  C9 (error containment). Every request gets a response: \<open>app\<close> is total, and its
  \<open>catch\<close> blocks turn whatever a \<open>try\<close> block throws into status 500 with the fixed
  message of the route. When the client is not ready, the response is 500 with the
  message of the readiness check and the client is untouched: no command was sent and
  nothing was written. When the client is ready and the engine fails a command of the
  operation, the response is 500 with the fixed message of the route.
\<close>

theorem error_containment:
  assumes "app L sch rq s = (r, s')"
  shows "(\<not> isReady s \<longrightarrow>
            status r = 500 \<and> body r = Some (json_error ''Redis client is not connected'')
            \<and> s' = s)
    \<and> (isReady s \<and> engine_failed s s' \<longrightarrow>
            status r = 500 \<and> body r = Some (json_error (catch_message rq)))
    \<and> (\<forall>e hs. catch_500 (catch_message rq) (Threw e hs) =
            \<lparr>status = 500, headers = hs, body = Some (json_error (catch_message rq))\<rparr>)"
proof -
  have unready: "\<not> isReady s \<longrightarrow>
      status r = 500 \<and> body r = Some (json_error ''Redis client is not connected'') \<and> s' = s"
    using assms by (auto simp: app_def not_connected_def)
  have failed: "isReady s \<and> engine_failed s s' \<longrightarrow>
      status r = 500 \<and> body r = Some (json_error (catch_message rq))"
  proof (cases rq)
    case (POST_plan reqbody)
    show ?thesis
    proof (cases "validate L sch (transformDate L reqbody) = []")
      case True
      with assms POST_plan show ?thesis
        by (auto simp: app_def post_route_valid catch_message_def dest: create_failed)
    next
      case False
      with assms POST_plan show ?thesis
        by (auto simp: app_def post_route_invalid engine_failed_def)
    qed
  next
    case (GET_plan key inm)
    with assms show ?thesis
      by (auto simp: app_def catch_message_def dest: read_failed)
  next
    case (DELETE_plan key)
    with assms show ?thesis
      by (auto simp: app_def catch_message_def dest: delete_failed)
  qed
  from unready failed show ?thesis
    by (simp add: threw_is_500)
qed

text \<open>A POST to a client that is not ready, and a GET whose command the engine fails.\<close>

theorem error_containment_witness:
  "status (fst (app sample_libs sample_schema (POST_plan sample_doc) unready_store)) = 500
   \<and> body (fst (app sample_libs sample_schema (POST_plan sample_doc) unready_store)) =
       Some (json_error ''Redis client is not connected'')
   \<and> snd (app sample_libs sample_schema (POST_plan sample_doc) unready_store) = unready_store
   \<and> status (fst (app sample_libs sample_schema (GET_plan ''abc123'' None) failing_store)) = 500
   \<and> body (fst (app sample_libs sample_schema (GET_plan ''abc123'' None) failing_store)) =
       Some (json_error ''Error retrieving plan'')"
proof -
  obtain r1 s1 where a1: "app sample_libs sample_schema (POST_plan sample_doc) unready_store = (r1, s1)"
    by (cases "app sample_libs sample_schema (POST_plan sample_doc) unready_store")
  obtain r2 s2 where a2: "app sample_libs sample_schema (GET_plan ''abc123'' None) failing_store = (r2, s2)"
    by (cases "app sample_libs sample_schema (GET_plan ''abc123'' None) failing_store")
  have u: "\<not> isReady unready_store"
    by (simp add: unready_store_def)
  have f: "isReady failing_store"
    by (simp add: failing_store_def)
  have "faults s2 = []"
    using a2 by (auto simp: app_def read_plan_def read_try_def failing_store_def next_fails_def
          command_sent_def)
  then have ef: "engine_failed failing_store s2"
    by (simp add: engine_failed_def failing_store_def)
  from error_containment [OF a1] u
  have "status r1 = 500 \<and> body r1 = Some (json_error ''Redis client is not connected'')
      \<and> s1 = unready_store"
    by blast
  moreover from error_containment [OF a2] f ef
  have "status r2 = 500 \<and> body r2 = Some (json_error (catch_message (GET_plan ''abc123'' None)))"
    by blast
  ultimately show ?thesis
    using a1 a2 by (simp add: catch_message_def)
qed



end
